theory Spec2Isabelle
  imports Main
begin

section \<open>HomeKit camera mixin: settings derivation and settings writes\<close>

text \<open>
  A shallow embedding of \<^verbatim>\<open>plugins/homekit/src/camera-mixin.ts\<close>: the class
  \<^verbatim>\<open>CameraMixin\<close> with its two methods \<^verbatim>\<open>getMixinSettings\<close> (the read path, which
  derives the list of setting descriptors from the store and the device's capabilities)
  and \<^verbatim>\<open>putMixinSetting\<close> (the write path, which normalises a written value and
  persists it).
\<close>

subsection \<open>JavaScript values\<close>

text \<open>
  The values a descriptor can carry and \<^verbatim>\<open>JSON.parse\<close> can return. Numbers are
  carried as integers: the only number the file produces itself is the timeout default 60,
  and it never computes with a number.
\<close>

datatype jsvalue =
    JUndefined
  | JNull
  | JBool bool
  | JNum int
  | JStr string
  | JArr "jsvalue list"
  | JObj "(string \<times> jsvalue) list"

text \<open>
  Modelled from the spec: the type \<^verbatim>\<open>SettingValue\<close> of the SDK is imported, not
  declared in this file. The write operation takes
  \<^verbatim>\<open>value: string|bool|sequence<string>\<close> (spec, section 6), which is the type below.
  A write of \<^verbatim>\<open>undefined\<close> or \<^verbatim>\<open>null\<close> is outside the model: what the store does
  with an undefined value is the store's own business.
\<close>

datatype SettingValue =
    VStr string
  | VBool bool
  | VStrList "string list"

text \<open>\<^verbatim>\<open>Array.prototype.join(sep)\<close> on an array of strings.\<close>

fun join :: "string \<Rightarrow> string list \<Rightarrow> string" where
  "join sep [] = []"
| "join sep [x] = x"
| "join sep (x # y # ys) = x @ sep @ join sep (y # ys)"

text \<open>
  \<^verbatim>\<open>value.toString()\<close>: a string is itself, a boolean is \<^verbatim>\<open>true\<close> or
  \<^verbatim>\<open>false\<close>, an array is its elements joined by commas.
\<close>

fun toString :: "SettingValue \<Rightarrow> string" where
  "toString (VStr s) = s"
| "toString (VBool b) = (if b then ''true'' else ''false'')"
| "toString (VStrList xs) = join '','' xs"

text \<open>The same value, seen as a JavaScript value (what a descriptor would carry).\<close>

fun toJs :: "SettingValue \<Rightarrow> jsvalue" where
  "toJs (VStr s) = JStr s"
| "toJs (VBool b) = JBool b"
| "toJs (VStrList xs) = JArr (map JStr xs)"

text \<open>
  The spread \<^verbatim>\<open>...x\<close> of a value into an argument list: an array gives its elements,
  a string its characters, and anything else is not iterable (a \<^verbatim>\<open>TypeError\<close>, here
  \<open>None\<close>).
\<close>

fun spread :: "jsvalue \<Rightarrow> jsvalue list option" where
  "spread (JArr xs) = Some xs"
| "spread (JStr s) = Some (map (\<lambda>c. JStr [c]) s)"
| "spread _ = None"

subsection \<open>The store\<close>

text \<open>
  \<^verbatim>\<open>this.storage\<close>: a flat store of strings under string keys. \<^verbatim>\<open>getItem\<close> of a
  key that is not there returns \<^verbatim>\<open>null\<close>, here \<open>None\<close>.
\<close>

type_synonym Storage = "string \<rightharpoonup> string"

fun getItem :: "Storage \<Rightarrow> string \<Rightarrow> string option" where
  "getItem st k = st k"

fun setItem :: "Storage \<Rightarrow> string \<Rightarrow> string \<Rightarrow> Storage" where
  "setItem st k v = st(k \<mapsto> v)"

fun removeItem :: "Storage \<Rightarrow> string \<Rightarrow> Storage" where
  "removeItem st k = st(k := None)"

text \<open>
  Truthiness of what \<^verbatim>\<open>getItem\<close> returns: \<^verbatim>\<open>null\<close> and the empty string are falsy,
  every other string is truthy.
\<close>

fun truthy :: "string option \<Rightarrow> bool" where
  "truthy None = False"
| "truthy (Some s) = (s \<noteq> [])"

text \<open>\<^verbatim>\<open>x || d\<close> for a stored string \<^verbatim>\<open>x\<close> and a default string \<^verbatim>\<open>d\<close>.\<close>

fun orElse :: "string option \<Rightarrow> string \<Rightarrow> string" where
  "orElse None d = d"
| "orElse (Some s) d = (if s \<noteq> [] then s else d)"

text \<open>\<^verbatim>\<open>(this.storage.getItem(k) === 'true').toString()\<close>\<close>

definition isTrueString :: "Storage \<Rightarrow> string \<Rightarrow> jsvalue" where
  "isTrueString st k = JStr (if getItem st k = Some ''true'' then ''true'' else ''false'')"

text \<open>\<^verbatim>\<open>this.storage.getItem(k)\<close> as a descriptor's value: the string, or \<^verbatim>\<open>null\<close>.\<close>

definition itemValue :: "Storage \<Rightarrow> string \<Rightarrow> jsvalue" where
  "itemValue st k = (case getItem st k of None \<Rightarrow> JNull | Some s \<Rightarrow> JStr s)"

subsection \<open>Descriptors, capabilities and the mixin\<close>

text \<open>
  A \<^verbatim>\<open>Setting\<close> object literal. A field the literal leaves out is \<open>None\<close> (or
  \<open>False\<close> for the three flags, which the file only ever sets to \<^verbatim>\<open>true\<close>).
\<close>

record Setting =
  key :: string
  title :: string
  group :: "string option"
  type :: "string option"
  "value" :: jsvalue
  description :: string
  placeholder :: "string option"
  choices :: "string list option"
  multiple :: bool
  readonly :: bool
  combobox :: bool
  deviceFilter :: "string option"

definition blank :: Setting where
  "blank = \<lparr> key = [], title = [], group = None, type = None, value = JUndefined,
     description = [], placeholder = None, choices = None, multiple = False,
     readonly = False, combobox = False, deviceFilter = None \<rparr>"

text \<open>The members of \<^verbatim>\<open>ScryptedInterface\<close> the file names, and any other one.\<close>

datatype ScryptedInterface =
    MotionSensor
  | VideoCameraConfiguration
  | AudioSensor
  | ObjectDetector
  | OnOff
  | Settings
  | OtherInterface string

text \<open>An awaited call on the device either throws or returns.\<close>

datatype 'a outcome = Throws | Returns 'a

text \<open>
  Modelled from the spec: \<^verbatim>\<open>MediaStreamOptions\<close> and the result of
  \<^verbatim>\<open>getObjectTypes\<close> are SDK types, not declared in this file; the spec (section 6)
  gives a channel as \<^verbatim>\<open>{name: string}\<close> and the object types as
  \<^verbatim>\<open>{classes: sequence<string>}\<close>. The file reads \<^verbatim>\<open>types?.classes?\<close>, so both the
  result and its \<^verbatim>\<open>classes\<close> may be undefined (\<open>None\<close>).
\<close>

record MediaStreamOptions =
  name :: string

record ObjectDetectionTypes =
  classes :: "string list option"

text \<open>What the write path does besides writing the store.\<close>

datatype Event = AlertReload | SettingsMixinEvent

text \<open>The mutable part of the mixin: its store and the notifications it has sent.\<close>

record Mixin =
  storage :: Storage
  events :: "Event list"

text \<open>What the write path can raise.\<close>

datatype error = TypeError

text \<open>
  Everything the two methods read that this file does not define. \<open>deviceId\<close> is
  \<^verbatim>\<open>this.id\<close>. The two probes give what \<^verbatim>\<open>realDevice.getVideoStreamOptions()\<close> and
  \<^verbatim>\<open>realDevice.getObjectTypes()\<close> do (a device that is not found throws in both).
  The two catalogs are the objects \<^verbatim>\<open>getH264DecoderArgs()\<close> and
  \<^verbatim>\<open>getH264EncoderArgs()\<close> return, as association lists of their own keys in key order
  (each call of the write path works on the object that call returned). \<open>storageSettings\<close> lists the keys
  \<^verbatim>\<open>k\<close> with a truthy \<^verbatim>\<open>this.storageSettings.settings[k]\<close>, own or inherited;
  \<open>superGetMixinSettings\<close> and \<open>superPutMixinSetting\<close> are the base class's two
  methods, and \<open>JSON_parse\<close> (\<open>None\<close> when it throws) and \<open>JSON_stringify\<close> the
  platform's.
\<close>

record Env =
  deviceId :: string
  interfaces :: "ScryptedInterface list"
  getVideoStreamOptions :: "MediaStreamOptions list option outcome"
  getObjectTypes :: "ObjectDetectionTypes option outcome"
  getH264DecoderArgs :: "(string \<times> string list) list"
  getH264EncoderArgs :: "(string \<times> string list) list"
  storageSettings :: "string list"
  superGetMixinSettings :: "Setting list"
  superPutMixinSetting :: "string \<Rightarrow> SettingValue \<Rightarrow> Mixin \<Rightarrow> error + Mixin"
  JSON_parse :: "string \<Rightarrow> jsvalue option"
  JSON_stringify :: "jsvalue \<Rightarrow> string"

definition defaultObjectDetectionContactSensorTimeout :: int where
  "defaultObjectDetectionContactSensorTimeout = 60"

subsection \<open>The read path: \<^verbatim>\<open>getMixinSettings\<close>\<close>

text \<open>
  \<^verbatim>\<open>msos\<close> starts as the empty array and keeps it when the probe throws; what the
  probe returns may be undefined, and then \<^verbatim>\<open>msos?.length > 1\<close> is false.
\<close>

definition msosOf :: "Env \<Rightarrow> MediaStreamOptions list" where
  "msosOf env =
     (case getVideoStreamOptions env of
        Throws \<Rightarrow> []
      | Returns None \<Rightarrow> []
      | Returns (Some ms) \<Rightarrow> ms)"

definition hasMotionSensor :: "Env \<Rightarrow> Storage \<Rightarrow> bool" where
  "hasMotionSensor env st =
     (truthy (getItem st ''linkedMotionSensor'') \<or> MotionSensor \<in> set (interfaces env))"

definition showTranscodeArgs :: "Env \<Rightarrow> Storage \<Rightarrow> bool" where
  "showTranscodeArgs env st =
     (let showArgs = (getItem st ''transcodeStreaming'' = Some ''true''
                      \<or> getItem st ''transcodeStreamingHub'' = Some ''true'')
      in if hasMotionSensor env st
         then showArgs \<or> getItem st ''transcodeRecording'' = Some ''true''
         else showArgs)"

text \<open>One of the three channel selectors: they differ in title, key and description.\<close>

definition channelSetting ::
  "Storage \<Rightarrow> MediaStreamOptions list \<Rightarrow> string \<Rightarrow> string \<Rightarrow> string \<Rightarrow> Setting" where
  "channelSetting st msos t k d =
     blank\<lparr> title := t, key := k,
       value := JStr (orElse (getItem st k) (name (msos ! 0))),
       description := d,
       choices := Some (map name msos) \<rparr>"

definition streamingChannelSettings :: "Env \<Rightarrow> Storage \<Rightarrow> Setting list" where
  "streamingChannelSettings env st =
     (let msos = msosOf env in
      if length msos > 1 then
        [ channelSetting st msos ''Live Stream'' ''streamingChannel''
            ''The media stream to use when streaming to HomeKit.'',
          channelSetting st msos ''Live Stream (remote streaming and Apple Watch)''
            ''streamingChannelHub''
            ''The media stream to use when streaming from outside your home network or to limited capability devices like Apple Watch.'' ]
      else [])"

definition recordingChannelSettings :: "Env \<Rightarrow> Storage \<Rightarrow> Setting list" where
  "recordingChannelSettings env st =
     (let msos = msosOf env in
      if hasMotionSensor env st then
        (if length msos > 1 then
           [ channelSetting st msos ''Recording Stream'' ''recordingChannel''
               ''The prebuffered media stream for HomeKit Secure Video.'' ]
         else [])
      else [])"

definition linkedMotionSensorSetting :: "Env \<Rightarrow> Storage \<Rightarrow> Setting" where
  \<open>linkedMotionSensorSetting env st =
     blank\<lparr> title := ''Linked Motion Sensor'', key := ''linkedMotionSensor'',
       type := Some ''device'',
       deviceFilter := Some ''interfaces.includes("MotionSensor")'',
       value := JStr (orElse (getItem st ''linkedMotionSensor'') (deviceId env)),
       placeholder := (if MotionSensor \<in> set (interfaces env) then None else Some ''None''),
       description := ''Set the motion sensor used to trigger HomeKit Secure Video recordings. Defaults to the device provided motion sensor when available.'' \<rparr>\<close>

definition transcodingNoticesSetting :: Setting where
  "transcodingNoticesSetting =
     blank\<lparr> title := ''HomeKit Transcoding'', group := Some ''HomeKit Transcoding'',
       key := ''transcodingNotices'', value := JStr ''WARNING'', readonly := True,
       description := ''Transcoding audio and video for HomeKit is not recommended. Configure your camera using the camera web portal or app to output the correct HomeKit compatible codecs (h264/aac/2000kbps).'' \<rparr>"

definition needsExtraDataSetting :: "Storage \<Rightarrow> Setting" where
  "needsExtraDataSetting st =
     blank\<lparr> group := Some ''HomeKit Transcoding'', key := ''needsExtraData'',
       title := ''Add H264 Extra Data'',
       description := ''Some cameras do not include H264 extra data in the stream and this causes live streaming to always fail (but recordings may be working). This is a inexpensive video filter and does not perform a transcode. Enable this setting only as necessary.'',
       value := isTrueString st ''needsExtraData'', type := Some ''boolean'' \<rparr>"

definition transcodeRecordingSettings :: "Env \<Rightarrow> Storage \<Rightarrow> Setting list" where
  "transcodeRecordingSettings env st =
     (if hasMotionSensor env st then
        [ blank\<lparr> title := ''Transcode Recording'', group := Some ''HomeKit Transcoding'',
            key := ''transcodeRecording'', type := Some ''boolean'',
            value := isTrueString st ''transcodeRecording'',
            description := ''Use FFMpeg to transcode recordings to a format supported by HomeKit Secure Video.'' \<rparr> ]
      else [])"

definition transcodeStreamingSetting :: "Storage \<Rightarrow> Setting" where
  "transcodeStreamingSetting st =
     blank\<lparr> title := ''Transcode Streaming'', group := Some ''HomeKit Transcoding'',
       type := Some ''boolean'', key := ''transcodeStreaming'',
       value := isTrueString st ''transcodeStreaming'',
       description := ''Use FFMpeg to transcode streaming to a format supported by HomeKit.'' \<rparr>"

text \<open>
  The value shown for \<^verbatim>\<open>hubStreamingMode\<close>: the stored entry when it is truthy, else
  what the two flags say, else \<^verbatim>\<open>Disabled\<close>.
\<close>

definition hubStreamingModeValue :: "Storage \<Rightarrow> string" where
  "hubStreamingModeValue st =
     (let v = getItem st ''hubStreamingMode'';
          v' = (if \<not> truthy v then
                  (if getItem st ''dynamicBitrate'' = Some ''true'' then Some ''Dynamic Bitrate''
                   else if getItem st ''transcodeStreamingHub'' = Some ''true'' then Some ''Transcode''
                   else v)
                else v)
      in orElse v' ''Disabled'')"

definition hubSetting :: "Env \<Rightarrow> Storage \<Rightarrow> Setting" where
  \<open>hubSetting env st =
     (if VideoCameraConfiguration \<in> set (interfaces env) then
        blank\<lparr> title := ''Transcode Remote Streaming and Apple Watch'',
          group := Some ''HomeKit Transcoding'', key := ''hubStreamingMode'',
          value := JStr (hubStreamingModeValue st),
          choices := Some [''Disabled'', ''Transcode'', ''Dynamic Bitrate''],
          description := ''The transcode options to use when remote streaming or streaming to limited capabilitity devices like Apple Watch. "Transcode" will use FFmpeg to stream a format supported by HomeKit. "Dynamic Bitrate" adjusts the bitrate of the native camera stream on demand to accomodate available bandwidth. Dynamic Bitrate should be used on secondary streams (sub streams), and not the main stream connected to an NVR, as it will reduce the recording quality.'' \<rparr>
      else
        blank\<lparr> title := ''Transcode Remote Streaming and Apple Watch'',
          group := Some ''HomeKit Transcoding'', type := Some ''boolean'',
          key := ''transcodeStreamingHub'',
          value := isTrueString st ''transcodeStreamingHub'',
          description := ''Transcode when remote streaming and streaming to limited capabilitity devices like Apple Watch.'' \<rparr>)\<close>

definition videoDecoderArgumentsSetting :: "Storage \<Rightarrow> (string \<times> string list) list \<Rightarrow> Setting" where
  "videoDecoderArgumentsSetting st decoderArgs =
     blank\<lparr> title := ''Video Decoder Arguments'', group := Some ''HomeKit Transcoding'',
       key := ''videoDecoderArguments'',
       value := itemValue st ''videoDecoderArguments'',
       description := ''FFmpeg arguments used to decode input video.'',
       placeholder := Some ''-hwaccel auto'',
       choices := Some (map fst decoderArgs), combobox := True \<rparr>"

definition h264EncoderArgumentsSetting :: "Storage \<Rightarrow> (string \<times> string list) list \<Rightarrow> Setting" where
  "h264EncoderArgumentsSetting st encoderArgs =
     blank\<lparr> title := ''H264 Encoder Arguments'', group := Some ''HomeKit Transcoding'',
       key := ''h264EncoderArguments'',
       value := itemValue st ''h264EncoderArguments'',
       description := ''FFmpeg arguments used to encode h264 video.'',
       placeholder := Some ''-vcodec h264_omx'',
       choices := Some (map fst encoderArgs), combobox := True \<rparr>"

definition transcodeArgsSettings :: "Env \<Rightarrow> Storage \<Rightarrow> Setting list" where
  "transcodeArgsSettings env st =
     (if showTranscodeArgs env st then
        (let decoderArgs = getH264DecoderArgs env;
             encoderArgs = getH264EncoderArgs env
         in [ videoDecoderArgumentsSetting st decoderArgs,
              h264EncoderArgumentsSetting st encoderArgs ])
      else [])"

definition detectAudioSettings :: "Env \<Rightarrow> Storage \<Rightarrow> Setting list" where
  "detectAudioSettings env st =
     (if AudioSensor \<in> set (interfaces env) then
        [ blank\<lparr> title := ''Audio Activity Detection'', key := ''detectAudio'',
            type := Some ''boolean'', value := isTrueString st ''detectAudio'',
            description := ''Trigger HomeKit Secure Video recording on audio activity.'' \<rparr> ]
      else [])"

text \<open>
  \<^verbatim>\<open>value.push(...JSON.parse(this.storage.getItem(k)))\<close> inside its own
  \<^verbatim>\<open>try\<close>: \<^verbatim>\<open>JSON.parse\<close> reads the text of its argument (\<^verbatim>\<open>null\<close> for a key that
  is not there), and the array stays empty when the parse or the spread throws.
\<close>

definition parsedSensors :: "Env \<Rightarrow> Storage \<Rightarrow> jsvalue list" where
  "parsedSensors env st =
     (let text = (case getItem st ''objectDetectionContactSensors'' of
                    None \<Rightarrow> ''null'' | Some s \<Rightarrow> s)
      in case JSON_parse env text of
           None \<Rightarrow> []
         | Some j \<Rightarrow> (case spread j of None \<Rightarrow> [] | Some xs \<Rightarrow> xs))"

text \<open>
  \<^verbatim>\<open>types?.classes?.filter(c => c !== 'motion')\<close>, undefined (\<open>None\<close>) when
  \<^verbatim>\<open>types\<close> or its \<^verbatim>\<open>classes\<close> is.
\<close>

definition detectionClasses :: "ObjectDetectionTypes option \<Rightarrow> string list option" where
  "detectionClasses types =
     (case types of
        None \<Rightarrow> None
      | Some t \<Rightarrow> map_option (filter (\<lambda>c. c \<noteq> ''motion'')) (classes t))"

definition objectDetectionContactSensorsSetting :: "Env \<Rightarrow> Storage \<Rightarrow> string list \<Rightarrow> Setting" where
  "objectDetectionContactSensorsSetting env st cs =
     blank\<lparr> title := ''Object Detection Sensors'', type := Some ''string'',
       choices := Some cs, multiple := True,
       key := ''objectDetectionContactSensors'',
       description := ''Create HomeKit occupancy sensors that detect specific people or objects.'',
       value := JArr (parsedSensors env st) \<rparr>"

definition objectDetectionContactSensorTimeoutSetting :: "Storage \<Rightarrow> Setting" where
  "objectDetectionContactSensorTimeoutSetting st =
     blank\<lparr> title := ''Object Detection Timeout'', type := Some ''number'',
       key := ''objectDetectionContactSensorTimeout'',
       description := ''Duration in seconds the sensor will report as occupied, before resetting.'',
       value := (if truthy (getItem st ''objectDetectionContactSensorTimeout'')
                 then itemValue st ''objectDetectionContactSensorTimeout''
                 else JNum defaultObjectDetectionContactSensorTimeout) \<rparr>"

definition objectDetectionSettings :: "Env \<Rightarrow> Storage \<Rightarrow> Setting list" where
  "objectDetectionSettings env st =
     (if ObjectDetector \<in> set (interfaces env) then
        (case getObjectTypes env of
           Throws \<Rightarrow> []
         | Returns types \<Rightarrow>
             (case detectionClasses types of
                None \<Rightarrow> []
              | Some cs \<Rightarrow>
                  if length cs \<noteq> 0 then
                    [ objectDetectionContactSensorsSetting env st cs,
                      objectDetectionContactSensorTimeoutSetting st ]
                  else []))
      else [])"

definition statusIndicatorSettings :: "Env \<Rightarrow> Storage \<Rightarrow> Setting list" where
  "statusIndicatorSettings env st =
     (if OnOff \<in> set (interfaces env) then
        [ blank\<lparr> title := ''Camera Status Indicator'',
            description := ''Allow HomeKit to control the camera status indicator light.'',
            key := ''statusIndicator'',
            value := JBool (getItem st ''statusIndicator'' = Some ''true''),
            type := Some ''boolean'' \<rparr> ]
      else [])"

text \<open>The array \<^verbatim>\<open>settings\<close>, in the order of its pushes.\<close>

definition ownSettings :: "Env \<Rightarrow> Storage \<Rightarrow> Setting list" where
  "ownSettings env st =
     streamingChannelSettings env st
     @ recordingChannelSettings env st
     @ [linkedMotionSensorSetting env st]
     @ [transcodingNoticesSetting]
     @ [needsExtraDataSetting st]
     @ transcodeRecordingSettings env st
     @ [transcodeStreamingSetting st]
     @ [hubSetting env st]
     @ transcodeArgsSettings env st
     @ detectAudioSettings env st
     @ objectDetectionSettings env st
     @ statusIndicatorSettings env st"

text \<open>\<^verbatim>\<open>return [...settings, ...await super.getMixinSettings()]\<close>\<close>

definition getMixinSettings :: "Env \<Rightarrow> Mixin \<Rightarrow> Setting list" where
  "getMixinSettings env this = ownSettings env (storage this) @ superGetMixinSettings env"

subsection \<open>The write path: \<^verbatim>\<open>putMixinSetting\<close>\<close>

text \<open>
  The two catalogs are plain objects, and \<^verbatim>\<open>catalog[name]\<close> looks a name up along the
  prototype chain: first among the object's own keys, then among the properties every
  plain object inherits from \<^verbatim>\<open>Object.prototype\<close>. Each inherited property is a
  function (for \<^verbatim>\<open>__proto__\<close>, the prototype object itself): a truthy value that is not
  an array and has neither \<^verbatim>\<open>join\<close> nor \<^verbatim>\<open>push\<close>.
\<close>

definition objectPrototypeNames :: "string list" where
  "objectPrototypeNames =
     [ ''constructor'', ''__defineGetter__'', ''__defineSetter__'', ''hasOwnProperty'',
       ''__lookupGetter__'', ''__lookupSetter__'', ''isPrototypeOf'',
       ''propertyIsEnumerable'', ''toString'', ''valueOf'', ''__proto__'',
       ''toLocaleString'' ]"

datatype 'a property = NoProperty | OwnProperty 'a | InheritedProperty

definition getProperty :: "(string \<times> 'a) list \<Rightarrow> string \<Rightarrow> 'a property" where
  "getProperty obj nm =
     (case map_of obj nm of
        Some x \<Rightarrow> OwnProperty x
      | None \<Rightarrow> if nm \<in> set objectPrototypeNames then InheritedProperty else NoProperty)"

text \<open>
  \<^verbatim>\<open>decoderArgs[value.toString()]?.join(' ') || value\<close>: the joined tokens of a
  cataloged name, unless they join to the empty string. On an inherited name the call of
  \<^verbatim>\<open>join\<close> raises (\<^verbatim>\<open>?.\<close> only guards a lookup that found nothing).
\<close>

definition expandDecoderArgs ::
  "(string \<times> string list) list \<Rightarrow> SettingValue \<Rightarrow> error + SettingValue" where
  "expandDecoderArgs decoderArgs v =
     (case getProperty decoderArgs (toString v) of
        NoProperty \<Rightarrow> Inr v
      | InheritedProperty \<Rightarrow> Inl TypeError
      | OwnProperty args \<Rightarrow>
          Inr (let joined = join '' '' args in if joined \<noteq> [] then VStr joined else v))"

definition extraEncoderArgs :: "string list" where
  "extraEncoderArgs =
     [ ''-b:v'', ''${request.video.max_bit_rate * 2}k'',
       ''-vf'', ''scale=${request.video.width}:${request.video.height}'',
       ''-r'', ''${request.video.fps}'' ]"

text \<open>
  The \<^verbatim>\<open>h264EncoderArguments\<close> branch: the tokens of a cataloged name get the extra
  tokens pushed behind them, are joined by spaces and wrapped in backticks; a name the
  lookup does not find leaves the value as it is. On an inherited name \<^verbatim>\<open>args\<close> is
  truthy and the call of \<^verbatim>\<open>args.push\<close> raises.
\<close>

definition expandEncoderArgs ::
  "(string \<times> string list) list \<Rightarrow> SettingValue \<Rightarrow> error + SettingValue" where
  "expandEncoderArgs encoderArgs v =
     (case getProperty encoderArgs (toString v) of
        NoProperty \<Rightarrow> Inr v
      | InheritedProperty \<Rightarrow> Inl TypeError
      | OwnProperty args \<Rightarrow>
          Inr (let substitute = join '' '' (args @ extraEncoderArgs)
               in if substitute \<noteq> [] then VStr (''`'' @ substitute @ ''`'') else v))"

text \<open>The \<^verbatim>\<open>hubStreamingMode\<close> branch, with the literals it compares against.\<close>

definition resolveHubStreamingMode :: "SettingValue \<Rightarrow> Storage \<Rightarrow> Storage" where
  "resolveHubStreamingMode v st =
     (if v = VStr ''Dynamic Bitrate'' then
        removeItem (setItem st ''dynamicBitrate'' ''true'') ''transcodeStreamingHub''
      else if v = VStr ''transcodeStreamingHub'' then
        removeItem (setItem st ''transcodeStreamingHub'' ''true'') ''dynamicBitrate''
      else
        removeItem (removeItem st ''dynamicBitrate'') ''transcodeStreamingHub'')"

text \<open>
  The method returns the mixin as the write leaves it, or the error it raised. Both raises
  come before the first write to the store, so a raised call leaves no trace.
\<close>

definition putMixinSetting :: "Env \<Rightarrow> string \<Rightarrow> SettingValue \<Rightarrow> Mixin \<Rightarrow> error + Mixin" where
  "putMixinSetting env k v this =
     (if k \<in> set (storageSettings env) then superPutMixinSetting env k v this
      else
        case (if k = ''videoDecoderArguments''
              then expandDecoderArgs (getH264DecoderArgs env) v else Inr v) of
          Inl e \<Rightarrow> Inl e
        | Inr v1 \<Rightarrow>
            (case (if k = ''h264EncoderArguments''
                   then expandEncoderArgs (getH264EncoderArgs env) v1 else Inr v1) of
               Inl e \<Rightarrow> Inl e
             | Inr v2 \<Rightarrow>
                 Inr (let st1 = (if k = ''hubStreamingMode''
                                 then resolveHubStreamingMode v2 (storage this)
                                 else storage this);
                          st2 = (if k = ''objectDetectionContactSensors''
                                 then setItem st1 k (JSON_stringify env (toJs v2))
                                 else setItem st1 k (toString v2));
                          reload = (if k = ''detectAudio'' \<or> k = ''linkedMotionSensor''
                                       \<or> k = ''objectDetectionContactSensors''
                                    then [AlertReload] else [])
                      in this\<lparr> storage := st2,
                              events := events this @ reload @ [SettingsMixinEvent] \<rparr>)))"

subsection \<open>A device to run the two methods on\<close>

text \<open>
  A camera with two channels, every capability the read path asks about, two object
  classes besides \<^verbatim>\<open>motion\<close>, one decoder and one encoder preset, and a base class
  with one setting of its own. Its \<open>JSON_parse\<close> and \<open>JSON_stringify\<close> are a table of the few JSON texts the
  examples use, read in one direction and in the other.
\<close>

definition exampleJson :: "(string \<times> jsvalue) list" where
  \<open>exampleJson =
     [ (''null'', JNull),
       (''[]'', JArr []),
       (''["person"]'', JArr [JStr ''person'']),
       (''["person","car"]'', JArr [JStr ''person'', JStr ''car'']) ]\<close>

definition exampleEnv :: Env where
  \<open>exampleEnv =
     \<lparr> deviceId = ''42'',
       interfaces = [MotionSensor, VideoCameraConfiguration, AudioSensor, ObjectDetector, OnOff],
       getVideoStreamOptions = Returns (Some [\<lparr>name = ''Main''\<rparr>, \<lparr>name = ''Sub''\<rparr>]),
       getObjectTypes = Returns (Some \<lparr>classes = Some [''motion'', ''person'', ''car'']\<rparr>),
       getH264DecoderArgs = [(''Nvidia CUDA'', [''-hwaccel'', ''cuda''])],
       getH264EncoderArgs = [(''Nvidia NVENC'', [''-vcodec'', ''h264_nvenc''])],
       storageSettings = [''standalone''],
       superGetMixinSettings = [blank\<lparr> key := ''standalone'', title := ''Standalone Accessory Mode'' \<rparr>],
       superPutMixinSetting = (\<lambda>k v this. Inr this),
       JSON_parse = map_of exampleJson,
       JSON_stringify = (\<lambda>j. case map_of (map (\<lambda>(s, j). (j, s)) exampleJson) j of
                                 None \<Rightarrow> ''null'' | Some s \<Rightarrow> s) \<rparr>\<close>

definition emptyMixin :: Mixin where
  "emptyMixin = \<lparr> storage = Map.empty, events = [] \<rparr>"

subsection \<open>Notions the properties are stated with\<close>

text \<open>
  The object-detection descriptors are pushed when the device has the
  \<^verbatim>\<open>ObjectDetector\<close> interface, the probe returns, and a class other than
  \<^verbatim>\<open>motion\<close> is left.
\<close>

definition objectDetectionShown :: "Env \<Rightarrow> bool" where
  "objectDetectionShown env =
     (ObjectDetector \<in> set (interfaces env) \<and>
      (case getObjectTypes env of
         Throws \<Rightarrow> False
       | Returns types \<Rightarrow>
           (case detectionClasses types of None \<Rightarrow> False | Some cs \<Rightarrow> length cs \<noteq> 0)))"

text \<open>The classes the object-detection descriptor offers, when it is pushed.\<close>

definition detectedClasses :: "Env \<Rightarrow> string list" where
  "detectedClasses env =
     (case getObjectTypes env of
        Throws \<Rightarrow> []
      | Returns types \<Rightarrow> (case detectionClasses types of None \<Rightarrow> [] | Some cs \<Rightarrow> cs))"

text \<open>The value a descriptor list shows for a key: that of the first descriptor with the key.\<close>

fun shownValue :: "string \<Rightarrow> Setting list \<Rightarrow> jsvalue option" where
  "shownValue k [] = None"
| "shownValue k (d # ds) = (if key d = k then Some (value d) else shownValue k ds)"

text \<open>
  A written value is a valid choice for a descriptor that offers choices when it is one of
  them, or, for a multi-select descriptor, a list of some of them.
\<close>

definition validChoice :: "Setting \<Rightarrow> SettingValue \<Rightarrow> bool" where
  "validChoice d v =
     (case choices d of
        None \<Rightarrow> False
      | Some cs \<Rightarrow>
          (case v of
             VStr c \<Rightarrow> \<not> multiple d \<and> c \<in> set cs
           | VStrList xs \<Rightarrow> multiple d \<and> set xs \<subseteq> set cs
           | VBool b \<Rightarrow> False))"

section \<open>Properties\<close>

subsection \<open>The keys of the descriptors\<close>

lemma keys_streamingChannelSettings:
  "map key (streamingChannelSettings env st) =
     (if 1 < length (msosOf env) then [''streamingChannel'', ''streamingChannelHub''] else [])"
  by (simp add: streamingChannelSettings_def channelSetting_def Let_def)

lemma keys_recordingChannelSettings:
  "map key (recordingChannelSettings env st) =
     (if hasMotionSensor env st \<and> 1 < length (msosOf env) then [''recordingChannel''] else [])"
  by (simp add: recordingChannelSettings_def channelSetting_def Let_def)

lemma key_linkedMotionSensorSetting:
  "key (linkedMotionSensorSetting env st) = ''linkedMotionSensor''"
  by (simp add: linkedMotionSensorSetting_def)

lemma key_transcodingNoticesSetting: "key transcodingNoticesSetting = ''transcodingNotices''"
  by (simp add: transcodingNoticesSetting_def)

lemma key_needsExtraDataSetting: "key (needsExtraDataSetting st) = ''needsExtraData''"
  by (simp add: needsExtraDataSetting_def)

lemma keys_transcodeRecordingSettings:
  "map key (transcodeRecordingSettings env st) =
     (if hasMotionSensor env st then [''transcodeRecording''] else [])"
  by (simp add: transcodeRecordingSettings_def)

lemma key_transcodeStreamingSetting: "key (transcodeStreamingSetting st) = ''transcodeStreaming''"
  by (simp add: transcodeStreamingSetting_def)

lemma key_hubSetting:
  "key (hubSetting env st) =
     (if VideoCameraConfiguration \<in> set (interfaces env) then ''hubStreamingMode''
      else ''transcodeStreamingHub'')"
  by (simp add: hubSetting_def)

lemma keys_transcodeArgsSettings:
  "map key (transcodeArgsSettings env st) =
     (if showTranscodeArgs env st then [''videoDecoderArguments'', ''h264EncoderArguments'']
      else [])"
  by (simp add: transcodeArgsSettings_def videoDecoderArgumentsSetting_def
      h264EncoderArgumentsSetting_def Let_def)

lemma keys_detectAudioSettings:
  "map key (detectAudioSettings env st) =
     (if AudioSensor \<in> set (interfaces env) then [''detectAudio''] else [])"
  by (simp add: detectAudioSettings_def)

lemma keys_objectDetectionSettings:
  "map key (objectDetectionSettings env st) =
     (if objectDetectionShown env
      then [''objectDetectionContactSensors'', ''objectDetectionContactSensorTimeout'']
      else [])"
  by (simp add: objectDetectionSettings_def objectDetectionShown_def
      objectDetectionContactSensorsSetting_def objectDetectionContactSensorTimeoutSetting_def
      split: outcome.splits option.splits)

lemma keys_statusIndicatorSettings:
  "map key (statusIndicatorSettings env st) =
     (if OnOff \<in> set (interfaces env) then [''statusIndicator''] else [])"
  by (simp add: statusIndicatorSettings_def)

lemmas ownSettings_keys =
  keys_streamingChannelSettings keys_recordingChannelSettings key_linkedMotionSensorSetting
  key_transcodingNoticesSetting key_needsExtraDataSetting keys_transcodeRecordingSettings
  key_transcodeStreamingSetting key_hubSetting keys_transcodeArgsSettings
  keys_detectAudioSettings keys_objectDetectionSettings keys_statusIndicatorSettings

lemma distinct_ownSettings: "distinct (map key (ownSettings env st))"
  by (auto simp add: ownSettings_def ownSettings_keys)

lemma getMixinSettings_keys:
  "map key (getMixinSettings env this) =
     map key (ownSettings env (storage this)) @ map key (superGetMixinSettings env)"
  by (simp add: getMixinSettings_def)

text \<open>
  C6. One derivation pass never gives two descriptors the same key: the descriptors the
  method pushes itself have pairwise different keys, for every device and every store.
  The list it returns ends with the base class's own descriptors, which this file does
  not define; the whole list is free of duplicate keys exactly when that tail is, and
  shares no key with the descriptors pushed here.
\<close>

theorem getMixinSettings_distinct_keys:
  "distinct (map key (ownSettings env (storage this))) \<and>
   (distinct (map key (getMixinSettings env this)) \<longleftrightarrow>
      distinct (map key (superGetMixinSettings env)) \<and>
      set (map key (ownSettings env (storage this)))
        \<inter> set (map key (superGetMixinSettings env)) = {})"
  using distinct_ownSettings [of env "storage this"]
  by (simp only: getMixinSettings_keys distinct_append) blast

theorem getMixinSettings_distinct_keys_witness:
  "distinct (map key (getMixinSettings exampleEnv emptyMixin))"
proof -
  have "map key (superGetMixinSettings exampleEnv) = [''standalone'']"
    by (simp add: exampleEnv_def)
  moreover have "''standalone'' \<notin> set (map key (ownSettings exampleEnv (storage emptyMixin)))"
    by (auto simp add: ownSettings_def ownSettings_keys)
  ultimately show ?thesis
    using getMixinSettings_distinct_keys [of exampleEnv emptyMixin] by simp
qed

subsection \<open>Writes of \<^verbatim>\<open>hubStreamingMode\<close>\<close>

lemma putMixinSetting_hubStreamingMode:
  "''hubStreamingMode'' \<notin> set (storageSettings env) \<Longrightarrow>
   putMixinSetting env ''hubStreamingMode'' v this =
     Inr (this\<lparr> storage := setItem (resolveHubStreamingMode v (storage this))
                              ''hubStreamingMode'' (toString v),
               events := events this @ [SettingsMixinEvent] \<rparr>)"
  by (simp add: putMixinSetting_def Let_def)

text \<open>
  C1. The claim: a write of \<^verbatim>\<open>Transcode\<close> leaves \<^verbatim>\<open>transcodeStreamingHub\<close> at
  \<^verbatim>\<open>"true"\<close>. The write path compares the value with the literal
  \<^verbatim>\<open>'transcodeStreamingHub'\<close>, not with the choice \<^verbatim>\<open>'Transcode'\<close> the descriptor
  offers, so the write takes the last branch: on a store that holds
  \<^verbatim>\<open>transcodeStreamingHub = "true"\<close> it removes the entry.
\<close>

theorem hubStreamingMode_Transcode_removes_flag:
  "\<exists>this'. putMixinSetting exampleEnv ''hubStreamingMode'' (VStr ''Transcode'')
             \<lparr> storage = [''transcodeStreamingHub'' \<mapsto> ''true''], events = [] \<rparr> = Inr this'
         \<and> storage this' ''transcodeStreamingHub'' = None"
  by (simp add: putMixinSetting_def Let_def exampleEnv_def resolveHubStreamingMode_def)

text \<open>
  C2. Whatever the store held before, a write of \<^verbatim>\<open>Dynamic Bitrate\<close> under
  \<^verbatim>\<open>hubStreamingMode\<close> leaves \<^verbatim>\<open>dynamicBitrate\<close> at \<^verbatim>\<open>"true"\<close> and no
  \<^verbatim>\<open>transcodeStreamingHub\<close> entry. (The key is handled by this class, not handed to
  the base class.)
\<close>

theorem hubStreamingMode_Dynamic_Bitrate:
  assumes "''hubStreamingMode'' \<notin> set (storageSettings env)"
  shows "\<exists>this'. putMixinSetting env ''hubStreamingMode'' (VStr ''Dynamic Bitrate'') this = Inr this'
           \<and> storage this' ''dynamicBitrate'' = Some ''true''
           \<and> storage this' ''transcodeStreamingHub'' = None"
  by (simp add: putMixinSetting_hubStreamingMode [OF assms] resolveHubStreamingMode_def)

theorem hubStreamingMode_Dynamic_Bitrate_witness:
  "''hubStreamingMode'' \<notin> set (storageSettings exampleEnv)
   \<and> (\<exists>this'. putMixinSetting exampleEnv ''hubStreamingMode'' (VStr ''Dynamic Bitrate'')
          \<lparr> storage = [''transcodeStreamingHub'' \<mapsto> ''true''], events = [] \<rparr> = Inr this'
        \<and> storage this' ''dynamicBitrate'' = Some ''true''
        \<and> storage this' ''transcodeStreamingHub'' = None)"
proof -
  have h: "''hubStreamingMode'' \<notin> set (storageSettings exampleEnv)"
    by (simp add: exampleEnv_def)
  show ?thesis
    using h hubStreamingMode_Dynamic_Bitrate
      [OF h, of "\<lparr> storage = [''transcodeStreamingHub'' \<mapsto> ''true''], events = [] \<rparr>"]
    by simp
qed

text \<open>
  C10. A write under \<^verbatim>\<open>hubStreamingMode\<close> of any value other than the two literals the
  write path compares against (\<^verbatim>\<open>'Dynamic Bitrate'\<close> and
  \<^verbatim>\<open>'transcodeStreamingHub'\<close>) removes both flags and stores the written value, as
  text, under \<^verbatim>\<open>hubStreamingMode\<close> itself. \<^verbatim>\<open>Disabled\<close>, \<^verbatim>\<open>Transcode\<close> and every
  unrecognised string are such values.
\<close>

theorem hubStreamingMode_other_values:
  assumes "''hubStreamingMode'' \<notin> set (storageSettings env)"
    and "v \<noteq> VStr ''Dynamic Bitrate''" and "v \<noteq> VStr ''transcodeStreamingHub''"
  shows "\<exists>this'. putMixinSetting env ''hubStreamingMode'' v this = Inr this'
           \<and> storage this' ''dynamicBitrate'' = None
           \<and> storage this' ''transcodeStreamingHub'' = None
           \<and> storage this' ''hubStreamingMode'' = Some (toString v)"
  using assms(2,3)
  by (simp add: putMixinSetting_hubStreamingMode [OF assms(1)] resolveHubStreamingMode_def)

theorem hubStreamingMode_other_values_witness:
  "''hubStreamingMode'' \<notin> set (storageSettings exampleEnv)
   \<and> VStr ''Disabled'' \<noteq> VStr ''Dynamic Bitrate''
   \<and> VStr ''Disabled'' \<noteq> VStr ''transcodeStreamingHub''
   \<and> (\<exists>this'. putMixinSetting exampleEnv ''hubStreamingMode'' (VStr ''Disabled'')
          \<lparr> storage = [''dynamicBitrate'' \<mapsto> ''true''], events = [] \<rparr> = Inr this'
        \<and> storage this' ''dynamicBitrate'' = None
        \<and> storage this' ''transcodeStreamingHub'' = None
        \<and> storage this' ''hubStreamingMode'' = Some ''Disabled'')"
proof -
  have h: "''hubStreamingMode'' \<notin> set (storageSettings exampleEnv)"
    by (simp add: exampleEnv_def)
  have a: "VStr ''Disabled'' \<noteq> VStr ''Dynamic Bitrate''" by simp
  have b: "VStr ''Disabled'' \<noteq> VStr ''transcodeStreamingHub''" by simp
  show ?thesis
    using h hubStreamingMode_other_values
      [OF h a b, of "\<lparr> storage = [''dynamicBitrate'' \<mapsto> ''true''], events = [] \<rparr>"]
    by simp
qed

text \<open>
  C3. The claim: a write under \<^verbatim>\<open>hubStreamingMode\<close> touches only the two flags and
  writes no \<^verbatim>\<open>hubStreamingMode\<close> entry. The write path ends by storing every key it
  handles (the last \<^verbatim>\<open>setItem\<close>), this one included, and the read path reads that
  entry back first: on the empty store, a write of \<^verbatim>\<open>Disabled\<close> leaves
  \<^verbatim>\<open>hubStreamingMode = "Disabled"\<close>.
\<close>

theorem hubStreamingMode_entry_written:
  "storage emptyMixin ''hubStreamingMode'' = None
   \<and> putMixinSetting exampleEnv ''hubStreamingMode'' (VStr ''Disabled'') emptyMixin
       = Inr \<lparr> storage = [''hubStreamingMode'' \<mapsto> ''Disabled''],
               events = [SettingsMixinEvent] \<rparr>
   \<and> storage \<lparr> storage = [''hubStreamingMode'' \<mapsto> ''Disabled''],
               events = [SettingsMixinEvent] \<rparr> ''hubStreamingMode'' = Some ''Disabled''"
  by (simp add: putMixinSetting_def Let_def exampleEnv_def emptyMixin_def
      resolveHubStreamingMode_def)

text \<open>
  C3, as amended. A write under \<^verbatim>\<open>hubStreamingMode\<close> changes the store at no key other
  than \<^verbatim>\<open>dynamicBitrate\<close>, \<^verbatim>\<open>transcodeStreamingHub\<close> and \<^verbatim>\<open>hubStreamingMode\<close>, and
  the written value is stored, as text, under \<^verbatim>\<open>hubStreamingMode\<close>.
\<close>

theorem hubStreamingMode_write_frame:
  assumes "''hubStreamingMode'' \<notin> set (storageSettings env)"
    and "k \<noteq> ''dynamicBitrate''" and "k \<noteq> ''transcodeStreamingHub''"
    and "k \<noteq> ''hubStreamingMode''"
  shows "\<exists>this'. putMixinSetting env ''hubStreamingMode'' v this = Inr this'
           \<and> storage this' k = storage this k
           \<and> storage this' ''hubStreamingMode'' = Some (toString v)"
  using assms(2-4)
  by (simp add: putMixinSetting_hubStreamingMode [OF assms(1)] resolveHubStreamingMode_def)

theorem hubStreamingMode_write_frame_witness:
  "''hubStreamingMode'' \<notin> set (storageSettings exampleEnv)
   \<and> (\<exists>this'. putMixinSetting exampleEnv ''hubStreamingMode'' (VStr ''Transcode'')
          \<lparr> storage = [''transcodeStreaming'' \<mapsto> ''true''], events = [] \<rparr> = Inr this'
        \<and> storage this' ''transcodeStreaming'' = Some ''true''
        \<and> storage this' ''hubStreamingMode'' = Some ''Transcode'')"
proof -
  have h: "''hubStreamingMode'' \<notin> set (storageSettings exampleEnv)"
    by (simp add: exampleEnv_def)
  show ?thesis
    using h hubStreamingMode_write_frame
      [OF h, of "''transcodeStreaming''" "VStr ''Transcode''"
         "\<lparr> storage = [''transcodeStreaming'' \<mapsto> ''true''], events = [] \<rparr>"]
    by simp
qed

subsection \<open>The value shown for \<^verbatim>\<open>hubStreamingMode\<close>\<close>

lemma shownValue_append:
  "shownValue k (xs @ ys) =
     (case shownValue k xs of None \<Rightarrow> shownValue k ys | Some v \<Rightarrow> Some v)"
  by (induction xs) auto

lemma shownValue_absent: "k \<notin> set (map key xs) \<Longrightarrow> shownValue k xs = None"
  by (induction xs) auto

lemma shown_hubStreamingMode:
  "VideoCameraConfiguration \<in> set (interfaces env) \<Longrightarrow>
   shownValue ''hubStreamingMode'' (ownSettings env st @ rest) =
     Some (JStr (hubStreamingModeValue st))"
  apply (simp add: ownSettings_def shownValue_append shownValue_absent ownSettings_keys)
  apply (simp add: hubSetting_def)
  done

text \<open>
  C5. The claim: with native stream configuration, the value shown is the stored
  \<^verbatim>\<open>hubStreamingMode\<close> entry whenever one is present. The read path tests the entry
  for truthiness, so an entry that is the empty string counts as missing: after a write
  of the empty string the entry is there, and the value shown is \<^verbatim>\<open>Disabled\<close>.
\<close>

theorem hubStreamingMode_empty_entry_not_shown:
  "putMixinSetting exampleEnv ''hubStreamingMode'' (VStr []) emptyMixin
     = Inr \<lparr> storage = [''hubStreamingMode'' \<mapsto> []], events = [SettingsMixinEvent] \<rparr>
   \<and> storage \<lparr> storage = [''hubStreamingMode'' \<mapsto> []], events = [SettingsMixinEvent] \<rparr>
        ''hubStreamingMode'' = Some []
   \<and> shownValue ''hubStreamingMode''
        (getMixinSettings exampleEnv
           \<lparr> storage = [''hubStreamingMode'' \<mapsto> []], events = [SettingsMixinEvent] \<rparr>)
      = Some (JStr ''Disabled'')"
proof -
  have h: "VideoCameraConfiguration \<in> set (interfaces exampleEnv)"
    by (simp add: exampleEnv_def)
  have s: "putMixinSetting exampleEnv ''hubStreamingMode'' (VStr []) emptyMixin
      = Inr \<lparr> storage = [''hubStreamingMode'' \<mapsto> []], events = [SettingsMixinEvent] \<rparr>"
    by (simp add: putMixinSetting_def Let_def exampleEnv_def emptyMixin_def
      resolveHubStreamingMode_def)
  have r: "shownValue ''hubStreamingMode''
        (getMixinSettings exampleEnv
           \<lparr> storage = [''hubStreamingMode'' \<mapsto> []], events = [SettingsMixinEvent] \<rparr>)
      = Some (JStr ''Disabled'')"
    unfolding getMixinSettings_def shown_hubStreamingMode [OF h]
    by (simp add: hubStreamingModeValue_def)
  show ?thesis
    using s r by simp
qed

text \<open>
  C5, as amended. With native stream configuration, the value shown for
  \<^verbatim>\<open>hubStreamingMode\<close> is the stored entry when one is present and is not the empty
  string; otherwise \<^verbatim>\<open>Dynamic Bitrate\<close> when \<^verbatim>\<open>dynamicBitrate\<close> is \<^verbatim>\<open>"true"\<close>
  (also when \<^verbatim>\<open>transcodeStreamingHub\<close> is \<^verbatim>\<open>"true"\<close> as well); otherwise
  \<^verbatim>\<open>Transcode\<close> when \<^verbatim>\<open>transcodeStreamingHub\<close> is \<^verbatim>\<open>"true"\<close>; otherwise
  \<^verbatim>\<open>Disabled\<close>.
\<close>

theorem hubStreamingMode_shown:
  assumes "VideoCameraConfiguration \<in> set (interfaces env)"
  shows "shownValue ''hubStreamingMode'' (getMixinSettings env this) =
     Some (JStr
       (let inferred =
              (if storage this ''dynamicBitrate'' = Some ''true'' then ''Dynamic Bitrate''
               else if storage this ''transcodeStreamingHub'' = Some ''true'' then ''Transcode''
               else ''Disabled'')
        in case storage this ''hubStreamingMode'' of
             None \<Rightarrow> inferred
           | Some s \<Rightarrow> if s = [] then inferred else s))"
  unfolding getMixinSettings_def shown_hubStreamingMode [OF assms]
  by (cases "storage this ''hubStreamingMode''") (simp_all add: hubStreamingModeValue_def)

theorem hubStreamingMode_shown_witness:
  "VideoCameraConfiguration \<in> set (interfaces exampleEnv)
   \<and> shownValue ''hubStreamingMode'' (getMixinSettings exampleEnv
        \<lparr> storage = [''dynamicBitrate'' \<mapsto> ''true'', ''transcodeStreamingHub'' \<mapsto> ''true''],
          events = [] \<rparr>) = Some (JStr ''Dynamic Bitrate'')"
proof -
  have h: "VideoCameraConfiguration \<in> set (interfaces exampleEnv)"
    by (simp add: exampleEnv_def)
  show ?thesis
    using h hubStreamingMode_shown
      [OF h, of "\<lparr> storage = [''dynamicBitrate'' \<mapsto> ''true'', ''transcodeStreamingHub'' \<mapsto> ''true''],
          events = [] \<rparr>"]
    by simp
qed

subsection \<open>Expansion of an encoder preset\<close>

lemma join_nonempty: "x \<in> set xs \<Longrightarrow> x \<noteq> [] \<Longrightarrow> join sep xs \<noteq> []"
  by (induction sep xs rule: join.induct) auto

lemma getProperty_own: "map_of obj nm = Some x \<Longrightarrow> getProperty obj nm = OwnProperty x"
  by (simp add: getProperty_def)


lemma putMixinSetting_h264EncoderArguments:
  "''h264EncoderArguments'' \<notin> set (storageSettings env) \<Longrightarrow>
   expandEncoderArgs (getH264EncoderArgs env) v = Inr v' \<Longrightarrow>
   putMixinSetting env ''h264EncoderArguments'' v this =
     Inr (this\<lparr> storage := setItem (storage this) ''h264EncoderArguments'' (toString v'),
               events := events this @ [SettingsMixinEvent] \<rparr>)"
  by (simp add: putMixinSetting_def Let_def)

text \<open>
  C7. For a cataloged encoder preset name, the expansion is the preset's own tokens
  followed by the three deferred option pairs (\<^verbatim>\<open>-b:v\<close> with twice the requested maximum
  bit rate, \<^verbatim>\<open>-vf\<close> with a rescale to the requested width and height, \<^verbatim>\<open>-r\<close> with the
  requested frame rate), joined by spaces and wrapped in backticks as one string; that
  string is what the write stores.
\<close>

theorem encoder_preset_expanded:
  assumes "map_of (getH264EncoderArgs env) (toString v) = Some args"
    and "''h264EncoderArguments'' \<notin> set (storageSettings env)"
  shows "expandEncoderArgs (getH264EncoderArgs env) v =
           Inr (VStr (''`'' @ join '' '' (args
             @ [''-b:v'', ''${request.video.max_bit_rate * 2}k'']
             @ [''-vf'', ''scale=${request.video.width}:${request.video.height}'']
             @ [''-r'', ''${request.video.fps}'']) @ ''`''))
       \<and> (\<exists>this'. putMixinSetting env ''h264EncoderArguments'' v this = Inr this'
            \<and> storage this' ''h264EncoderArguments'' =
                Some (''`'' @ join '' '' (args
                  @ [''-b:v'', ''${request.video.max_bit_rate * 2}k'']
                  @ [''-vf'', ''scale=${request.video.width}:${request.video.height}'']
                  @ [''-r'', ''${request.video.fps}'']) @ ''`''))"
proof -
  have "join '' '' (args @ extraEncoderArgs) \<noteq> []"
    by (rule join_nonempty [of "''-b:v''"]) (simp_all add: extraEncoderArgs_def)
  then have e: "expandEncoderArgs (getH264EncoderArgs env) v =
      Inr (VStr (''`'' @ join '' '' (args @ extraEncoderArgs) @ ''`''))"
    using assms(1) by (simp add: expandEncoderArgs_def getProperty_own)
  show ?thesis
    using e
    by (simp add: putMixinSetting_h264EncoderArguments [OF assms(2) e] extraEncoderArgs_def)
qed

theorem encoder_preset_expanded_witness:
  "map_of (getH264EncoderArgs exampleEnv) (toString (VStr ''Nvidia NVENC''))
     = Some [''-vcodec'', ''h264_nvenc'']
   \<and> ''h264EncoderArguments'' \<notin> set (storageSettings exampleEnv)
   \<and> expandEncoderArgs (getH264EncoderArgs exampleEnv) (VStr ''Nvidia NVENC'') =
       Inr (VStr ''`-vcodec h264_nvenc -b:v ${request.video.max_bit_rate * 2}k -vf scale=${request.video.width}:${request.video.height} -r ${request.video.fps}`'')
   \<and> (\<exists>this'. putMixinSetting exampleEnv ''h264EncoderArguments'' (VStr ''Nvidia NVENC'')
          emptyMixin = Inr this'
        \<and> storage this' ''h264EncoderArguments'' =
            Some ''`-vcodec h264_nvenc -b:v ${request.video.max_bit_rate * 2}k -vf scale=${request.video.width}:${request.video.height} -r ${request.video.fps}`'')"
proof -
  have a: "map_of (getH264EncoderArgs exampleEnv) (toString (VStr ''Nvidia NVENC''))
     = Some [''-vcodec'', ''h264_nvenc'']"
    by (simp add: exampleEnv_def)
  have h: "''h264EncoderArguments'' \<notin> set (storageSettings exampleEnv)"
    by (simp add: exampleEnv_def)
  show ?thesis
    using a h encoder_preset_expanded [OF a h, of emptyMixin] by simp
qed




subsection \<open>The stored object detection sensors\<close>

lemma blank_choices: "choices blank = None" "multiple blank = False"
  by (simp_all add: blank_def)

lemma objectDetectionSettings_eq:
  "objectDetectionSettings env st =
     (if objectDetectionShown env
      then [ objectDetectionContactSensorsSetting env st (detectedClasses env),
             objectDetectionContactSensorTimeoutSetting st ]
      else [])"
  by (simp add: objectDetectionSettings_def objectDetectionShown_def detectedClasses_def
      split: outcome.splits option.splits)

lemma shown_objectDetectionContactSensors:
  "shownValue ''objectDetectionContactSensors'' (ownSettings env st @ rest) =
     (if objectDetectionShown env then Some (JArr (parsedSensors env st))
      else shownValue ''objectDetectionContactSensors'' rest)"
  apply (simp add: ownSettings_def shownValue_append shownValue_absent ownSettings_keys)
  apply (simp add: objectDetectionSettings_eq objectDetectionContactSensorsSetting_def)
  done

lemma example_guard: "k \<noteq> ''standalone'' \<Longrightarrow> k \<notin> set (storageSettings exampleEnv)"
  by (simp add: exampleEnv_def)

lemma example_objectDetectionShown: "objectDetectionShown exampleEnv"
  by (simp add: objectDetectionShown_def exampleEnv_def detectionClasses_def)

lemma example_detectedClasses: "detectedClasses exampleEnv = [''person'', ''car'']"
  by (simp add: detectedClasses_def exampleEnv_def detectionClasses_def)

text \<open>
  C9. When the stored \<^verbatim>\<open>objectDetectionContactSensors\<close> text is not valid JSON
  (\<^verbatim>\<open>JSON.parse\<close> throws on it), or the key is absent (\<^verbatim>\<open>JSON.parse\<close> then reads
  \<^verbatim>\<open>null\<close>, which cannot be spread), the multi-select descriptor of the next derivation
  carries the empty sequence. The derivation itself cannot fail there: the parse and the
  spread stand in a \<^verbatim>\<open>try\<close> whose \<^verbatim>\<open>catch\<close> leaves the array empty, which is the
  \<open>None\<close> branch of \<open>parsedSensors\<close>.
\<close>

theorem malformed_sensors_read_as_empty:
  assumes "(storage this ''objectDetectionContactSensors'' = None
              \<and> JSON_parse env ''null'' = Some JNull)
         \<or> (\<exists>s. storage this ''objectDetectionContactSensors'' = Some s
              \<and> JSON_parse env s = None)"
    and "objectDetectionShown env"
  shows "shownValue ''objectDetectionContactSensors'' (getMixinSettings env this) = Some (JArr [])"
proof -
  have "parsedSensors env (storage this) = []"
    using assms(1) by (auto simp add: parsedSensors_def)
  then show ?thesis
    using assms(2)
    by (simp add: getMixinSettings_def shown_objectDetectionContactSensors)
qed

theorem malformed_sensors_read_as_empty_witness:
  "storage \<lparr> storage = [''objectDetectionContactSensors'' \<mapsto> ''person,car''], events = [] \<rparr>
       ''objectDetectionContactSensors'' = Some ''person,car''
   \<and> JSON_parse exampleEnv ''person,car'' = None
   \<and> objectDetectionShown exampleEnv
   \<and> shownValue ''objectDetectionContactSensors'' (getMixinSettings exampleEnv
        \<lparr> storage = [''objectDetectionContactSensors'' \<mapsto> ''person,car''], events = [] \<rparr>)
       = Some (JArr [])
   \<and> storage emptyMixin ''objectDetectionContactSensors'' = None
   \<and> JSON_parse exampleEnv ''null'' = Some JNull
   \<and> shownValue ''objectDetectionContactSensors'' (getMixinSettings exampleEnv emptyMixin)
       = Some (JArr [])"
proof -
  have p: "JSON_parse exampleEnv ''person,car'' = None"
    by (simp add: exampleEnv_def exampleJson_def)
  have n: "JSON_parse exampleEnv ''null'' = Some JNull"
    by (simp add: exampleEnv_def exampleJson_def)
  have e: "storage emptyMixin ''objectDetectionContactSensors'' = None"
    by (simp add: emptyMixin_def)
  have a: "(storage \<lparr> storage = [''objectDetectionContactSensors'' \<mapsto> ''person,car''], events = [] \<rparr>
              ''objectDetectionContactSensors'' = None
              \<and> JSON_parse exampleEnv ''null'' = Some JNull)
         \<or> (\<exists>s. storage \<lparr> storage = [''objectDetectionContactSensors'' \<mapsto> ''person,car''], events = [] \<rparr>
              ''objectDetectionContactSensors'' = Some s
              \<and> JSON_parse exampleEnv s = None)"
    using p by simp
  have b: "(storage emptyMixin ''objectDetectionContactSensors'' = None
              \<and> JSON_parse exampleEnv ''null'' = Some JNull)
         \<or> (\<exists>s. storage emptyMixin ''objectDetectionContactSensors'' = Some s
              \<and> JSON_parse exampleEnv s = None)"
    using n e by simp
  show ?thesis
    using p n e example_objectDetectionShown
      malformed_sensors_read_as_empty [OF a example_objectDetectionShown]
      malformed_sensors_read_as_empty [OF b example_objectDetectionShown]
    by simp
qed

subsection \<open>Writing a choice and reading it back\<close>

lemma streamingChannelSettings_eq:
  "streamingChannelSettings env st =
     (if 1 < length (msosOf env) then
        [ channelSetting st (msosOf env) ''Live Stream'' ''streamingChannel''
            ''The media stream to use when streaming to HomeKit.'',
          channelSetting st (msosOf env) ''Live Stream (remote streaming and Apple Watch)''
            ''streamingChannelHub''
            ''The media stream to use when streaming from outside your home network or to limited capability devices like Apple Watch.'' ]
      else [])"
  by (simp add: streamingChannelSettings_def Let_def)

lemma recordingChannelSettings_eq:
  "recordingChannelSettings env st =
     (if hasMotionSensor env st \<and> 1 < length (msosOf env) then
           [ channelSetting st (msosOf env) ''Recording Stream'' ''recordingChannel''
               ''The prebuffered media stream for HomeKit Secure Video.'' ]
      else [])"
  by (simp add: recordingChannelSettings_def Let_def)

lemma channelSetting_fields:
  "key (channelSetting st msos t k d) = k"
  "value (channelSetting st msos t k d) = JStr (orElse (getItem st k) (name (msos ! 0)))"
  "choices (channelSetting st msos t k d) = Some (map name msos)"
  "multiple (channelSetting st msos t k d) = False"
  by (simp_all add: channelSetting_def blank_choices)

lemma transcodeArgsSettings_eq:
  "transcodeArgsSettings env st =
     (if showTranscodeArgs env st then
        [ videoDecoderArgumentsSetting st (getH264DecoderArgs env),
          h264EncoderArgumentsSetting st (getH264EncoderArgs env) ]
      else [])"
  by (simp add: transcodeArgsSettings_def Let_def)

lemma own_choices_cases:
  assumes "d \<in> set (ownSettings env st)" and "choices d = Some cs"
  shows "(key d = ''streamingChannel'' \<and> 1 < length (msosOf env) \<and> cs = map name (msosOf env) \<and> \<not> multiple d)
       \<or> (key d = ''streamingChannelHub'' \<and> 1 < length (msosOf env) \<and> cs = map name (msosOf env) \<and> \<not> multiple d)
       \<or> (key d = ''recordingChannel'' \<and> 1 < length (msosOf env) \<and> hasMotionSensor env st \<and> cs = map name (msosOf env) \<and> \<not> multiple d)
       \<or> (key d = ''hubStreamingMode'' \<and> VideoCameraConfiguration \<in> set (interfaces env)
            \<and> cs = [''Disabled'', ''Transcode'', ''Dynamic Bitrate''] \<and> \<not> multiple d)
       \<or> (key d = ''videoDecoderArguments'' \<and> showTranscodeArgs env st \<and> cs = map fst (getH264DecoderArgs env) \<and> \<not> multiple d)
       \<or> (key d = ''h264EncoderArguments'' \<and> showTranscodeArgs env st \<and> cs = map fst (getH264EncoderArgs env) \<and> \<not> multiple d)
       \<or> (key d = ''objectDetectionContactSensors'' \<and> objectDetectionShown env \<and> cs = detectedClasses env \<and> multiple d)"
proof -
  from assms(1) consider
      (stream) "d \<in> set (streamingChannelSettings env st)"
    | (rec) "d \<in> set (recordingChannelSettings env st)"
    | (linked) "d = linkedMotionSensorSetting env st"
    | (notice) "d = transcodingNoticesSetting"
    | (extra) "d = needsExtraDataSetting st"
    | (trec) "d \<in> set (transcodeRecordingSettings env st)"
    | (tstream) "d = transcodeStreamingSetting st"
    | (hub) "d = hubSetting env st"
    | (args) "d \<in> set (transcodeArgsSettings env st)"
    | (audio) "d \<in> set (detectAudioSettings env st)"
    | (objdet) "d \<in> set (objectDetectionSettings env st)"
    | (status) "d \<in> set (statusIndicatorSettings env st)"
    unfolding ownSettings_def set_append by auto
  then show ?thesis
  proof cases
    case stream
    then have "1 < length (msosOf env)"
      and "d = channelSetting st (msosOf env) ''Live Stream'' ''streamingChannel''
            ''The media stream to use when streaming to HomeKit.''
         \<or> d = channelSetting st (msosOf env) ''Live Stream (remote streaming and Apple Watch)''
            ''streamingChannelHub''
            ''The media stream to use when streaming from outside your home network or to limited capability devices like Apple Watch.''"
      by (simp_all add: streamingChannelSettings_eq split: if_splits)
    then show ?thesis using assms(2)
      by (elim disjE) (simp_all add: channelSetting_fields)
  next
    case rec
    then have "1 < length (msosOf env)" and "hasMotionSensor env st"
      and "d = channelSetting st (msosOf env) ''Recording Stream'' ''recordingChannel''
               ''The prebuffered media stream for HomeKit Secure Video.''"
      by (simp_all add: recordingChannelSettings_eq split: if_splits)
    then show ?thesis using assms(2)
      by (simp add: channelSetting_fields)
  next
    case linked
    then show ?thesis using assms(2)
      by (simp add: linkedMotionSensorSetting_def blank_choices)
  next
    case notice
    then show ?thesis using assms(2)
      by (simp add: transcodingNoticesSetting_def blank_choices)
  next
    case extra
    then show ?thesis using assms(2)
      by (simp add: needsExtraDataSetting_def blank_choices)
  next
    case trec
    then show ?thesis using assms(2)
      by (simp add: transcodeRecordingSettings_def blank_choices split: if_splits)
  next
    case tstream
    then show ?thesis using assms(2)
      by (simp add: transcodeStreamingSetting_def blank_choices)
  next
    case hub
    then show ?thesis using assms(2)
      by (simp add: hubSetting_def blank_choices split: if_splits)
  next
    case args
    then have "showTranscodeArgs env st"
      and "d = videoDecoderArgumentsSetting st (getH264DecoderArgs env)
         \<or> d = h264EncoderArgumentsSetting st (getH264EncoderArgs env)"
      by (simp_all add: transcodeArgsSettings_eq split: if_splits)
    then show ?thesis using assms(2)
      by (elim disjE) (simp_all add: videoDecoderArgumentsSetting_def
          h264EncoderArgumentsSetting_def blank_choices)
  next
    case audio
    then show ?thesis using assms(2)
      by (simp add: detectAudioSettings_def blank_choices split: if_splits)
  next
    case objdet
    then have "objectDetectionShown env"
      and "d = objectDetectionContactSensorsSetting env st (detectedClasses env)
         \<or> d = objectDetectionContactSensorTimeoutSetting st"
      by (simp_all add: objectDetectionSettings_eq split: if_splits)
    then show ?thesis using assms(2)
      by (elim disjE) (simp_all add: objectDetectionContactSensorsSetting_def
          objectDetectionContactSensorTimeoutSetting_def blank_choices)
  next
    case status
    then show ?thesis using assms(2)
      by (simp add: statusIndicatorSettings_def blank_choices split: if_splits)
  qed
qed

lemma shown_streamingChannel:
  "1 < length (msosOf env) \<Longrightarrow>
   shownValue ''streamingChannel'' (ownSettings env st @ rest) =
     Some (JStr (orElse (st ''streamingChannel'') (name (msosOf env ! 0))))"
  by (simp add: ownSettings_def shownValue_append streamingChannelSettings_eq
      channelSetting_fields)

lemma shown_streamingChannelHub:
  "1 < length (msosOf env) \<Longrightarrow>
   shownValue ''streamingChannelHub'' (ownSettings env st @ rest) =
     Some (JStr (orElse (st ''streamingChannelHub'') (name (msosOf env ! 0))))"
  by (simp add: ownSettings_def shownValue_append streamingChannelSettings_eq
      channelSetting_fields)

lemma shown_recordingChannel:
  "1 < length (msosOf env) \<Longrightarrow> hasMotionSensor env st \<Longrightarrow>
   shownValue ''recordingChannel'' (ownSettings env st @ rest) =
     Some (JStr (orElse (st ''recordingChannel'') (name (msosOf env ! 0))))"
  by (simp add: ownSettings_def shownValue_append streamingChannelSettings_eq
      recordingChannelSettings_eq channelSetting_fields)

lemma shown_videoDecoderArguments:
  "showTranscodeArgs env st \<Longrightarrow>
   shownValue ''videoDecoderArguments'' (ownSettings env st @ rest) =
     Some (itemValue st ''videoDecoderArguments'')"
  apply (simp add: ownSettings_def shownValue_append shownValue_absent ownSettings_keys)
  apply (simp add: transcodeArgsSettings_eq videoDecoderArgumentsSetting_def)
  done

lemma shown_h264EncoderArguments:
  "showTranscodeArgs env st \<Longrightarrow>
   shownValue ''h264EncoderArguments'' (ownSettings env st @ rest) =
     Some (itemValue st ''h264EncoderArguments'')"
  apply (simp add: ownSettings_def shownValue_append shownValue_absent ownSettings_keys)
  apply (simp add: transcodeArgsSettings_eq videoDecoderArgumentsSetting_def
      h264EncoderArgumentsSetting_def)
  done

lemma putMixinSetting_plain:
  assumes "k \<notin> set (storageSettings env)"
    and "k \<noteq> ''videoDecoderArguments''" and "k \<noteq> ''h264EncoderArguments''"
    and "k \<noteq> ''hubStreamingMode''" and "k \<noteq> ''objectDetectionContactSensors''"
  shows "putMixinSetting env k v this =
     Inr (this\<lparr> storage := setItem (storage this) k (toString v),
               events := events this
                 @ (if k = ''detectAudio'' \<or> k = ''linkedMotionSensor'' then [AlertReload] else [])
                 @ [SettingsMixinEvent] \<rparr>)"
  using assms by (simp add: putMixinSetting_def Let_def)

lemma putMixinSetting_videoDecoderArguments:
  "''videoDecoderArguments'' \<notin> set (storageSettings env) \<Longrightarrow>
   expandDecoderArgs (getH264DecoderArgs env) v = Inr v' \<Longrightarrow>
   putMixinSetting env ''videoDecoderArguments'' v this =
     Inr (this\<lparr> storage := setItem (storage this) ''videoDecoderArguments'' (toString v'),
               events := events this @ [SettingsMixinEvent] \<rparr>)"
  by (simp add: putMixinSetting_def Let_def)

lemma putMixinSetting_objectDetectionContactSensors:
  "''objectDetectionContactSensors'' \<notin> set (storageSettings env) \<Longrightarrow>
   putMixinSetting env ''objectDetectionContactSensors'' v this =
     Inr (this\<lparr> storage := setItem (storage this) ''objectDetectionContactSensors''
                              (JSON_stringify env (toJs v)),
               events := events this @ [AlertReload, SettingsMixinEvent] \<rparr>)"
  by (simp add: putMixinSetting_def Let_def)

lemma hasMotionSensor_update:
  "k \<noteq> ''linkedMotionSensor'' \<Longrightarrow> hasMotionSensor env (st(k \<mapsto> x)) = hasMotionSensor env st"
  by (simp add: hasMotionSensor_def)

lemma showTranscodeArgs_update:
  "k \<noteq> ''linkedMotionSensor'' \<Longrightarrow> k \<noteq> ''transcodeStreaming'' \<Longrightarrow>
   k \<noteq> ''transcodeStreamingHub'' \<Longrightarrow> k \<noteq> ''transcodeRecording'' \<Longrightarrow>
   showTranscodeArgs env (st(k \<mapsto> x)) = showTranscodeArgs env st"
  by (simp add: showTranscodeArgs_def hasMotionSensor_def)

lemma validChoice_cases:
  assumes "validChoice d v"
  obtains (single) cs c where "choices d = Some cs" "\<not> multiple d" "v = VStr c" "c \<in> set cs"
        | (several) cs xs where "choices d = Some cs" "multiple d" "v = VStrList xs" "set xs \<subseteq> set cs"
  using assms by (auto simp add: validChoice_def split: option.splits SettingValue.splits)

text \<open>
  C4. The claim: writing any valid choice of any descriptor key and deriving again shows
  the written value, in particular a cataloged encoder preset name under
  \<^verbatim>\<open>h264EncoderArguments\<close>. The write path stores a cataloged preset name as its
  expansion, and the read path shows what is stored: with \<^verbatim>\<open>transcodeStreaming\<close> on,
  the offered choice \<^verbatim>\<open>Nvidia NVENC\<close> reads back as the backtick-wrapped argument
  string.
\<close>

theorem encoder_preset_not_read_back:
  "h264EncoderArgumentsSetting [''transcodeStreaming'' \<mapsto> ''true''] (getH264EncoderArgs exampleEnv)
     \<in> set (getMixinSettings exampleEnv
          \<lparr> storage = [''transcodeStreaming'' \<mapsto> ''true''], events = [] \<rparr>)
   \<and> validChoice
        (h264EncoderArgumentsSetting [''transcodeStreaming'' \<mapsto> ''true'']
           (getH264EncoderArgs exampleEnv))
        (VStr ''Nvidia NVENC'')
   \<and> putMixinSetting exampleEnv ''h264EncoderArguments'' (VStr ''Nvidia NVENC'')
         \<lparr> storage = [''transcodeStreaming'' \<mapsto> ''true''], events = [] \<rparr>
       = Inr \<lparr> storage = [''transcodeStreaming'' \<mapsto> ''true'',
                 ''h264EncoderArguments'' \<mapsto> ''`-vcodec h264_nvenc -b:v ${request.video.max_bit_rate * 2}k -vf scale=${request.video.width}:${request.video.height} -r ${request.video.fps}`''],
               events = [SettingsMixinEvent] \<rparr>
   \<and> shownValue ''h264EncoderArguments'' (getMixinSettings exampleEnv
         \<lparr> storage = [''transcodeStreaming'' \<mapsto> ''true'',
             ''h264EncoderArguments'' \<mapsto> ''`-vcodec h264_nvenc -b:v ${request.video.max_bit_rate * 2}k -vf scale=${request.video.width}:${request.video.height} -r ${request.video.fps}`''],
           events = [SettingsMixinEvent] \<rparr>)
      = Some (JStr ''`-vcodec h264_nvenc -b:v ${request.video.max_bit_rate * 2}k -vf scale=${request.video.width}:${request.video.height} -r ${request.video.fps}`'')
   \<and> Some (JStr ''`-vcodec h264_nvenc -b:v ${request.video.max_bit_rate * 2}k -vf scale=${request.video.width}:${request.video.height} -r ${request.video.fps}`'')
      \<noteq> Some (toJs (VStr ''Nvidia NVENC''))"
proof -
  have show0: "showTranscodeArgs exampleEnv [''transcodeStreaming'' \<mapsto> ''true'']"
    by (simp add: showTranscodeArgs_def)
  have a: "h264EncoderArgumentsSetting [''transcodeStreaming'' \<mapsto> ''true''] (getH264EncoderArgs exampleEnv)
     \<in> set (getMixinSettings exampleEnv
          \<lparr> storage = [''transcodeStreaming'' \<mapsto> ''true''], events = [] \<rparr>)"
    using show0 by (simp add: getMixinSettings_def ownSettings_def transcodeArgsSettings_eq)
  have b: "validChoice
        (h264EncoderArgumentsSetting [''transcodeStreaming'' \<mapsto> ''true'']
           (getH264EncoderArgs exampleEnv))
        (VStr ''Nvidia NVENC'')"
    by (simp add: validChoice_def h264EncoderArgumentsSetting_def blank_def exampleEnv_def)
  have e: "expandEncoderArgs (getH264EncoderArgs exampleEnv) (VStr ''Nvidia NVENC'') =
      Inr (VStr ''`-vcodec h264_nvenc -b:v ${request.video.max_bit_rate * 2}k -vf scale=${request.video.width}:${request.video.height} -r ${request.video.fps}`'')"
    by (simp add: expandEncoderArgs_def getProperty_def extraEncoderArgs_def exampleEnv_def)
  have g: "''h264EncoderArguments'' \<notin> set (storageSettings exampleEnv)"
    by (simp add: example_guard)
  have p: "putMixinSetting exampleEnv ''h264EncoderArguments'' (VStr ''Nvidia NVENC'')
         \<lparr> storage = [''transcodeStreaming'' \<mapsto> ''true''], events = [] \<rparr>
       = Inr \<lparr> storage = [''transcodeStreaming'' \<mapsto> ''true'',
                 ''h264EncoderArguments'' \<mapsto> ''`-vcodec h264_nvenc -b:v ${request.video.max_bit_rate * 2}k -vf scale=${request.video.width}:${request.video.height} -r ${request.video.fps}`''],
               events = [SettingsMixinEvent] \<rparr>"
    by (simp add: putMixinSetting_h264EncoderArguments [OF g e])
  have c: "shownValue ''h264EncoderArguments'' (getMixinSettings exampleEnv
         \<lparr> storage = [''transcodeStreaming'' \<mapsto> ''true'',
             ''h264EncoderArguments'' \<mapsto> ''`-vcodec h264_nvenc -b:v ${request.video.max_bit_rate * 2}k -vf scale=${request.video.width}:${request.video.height} -r ${request.video.fps}`''],
           events = [SettingsMixinEvent] \<rparr>)
      = Some (JStr ''`-vcodec h264_nvenc -b:v ${request.video.max_bit_rate * 2}k -vf scale=${request.video.width}:${request.video.height} -r ${request.video.fps}`'')"
    using show0
    by (simp add: getMixinSettings_def shown_h264EncoderArguments showTranscodeArgs_update
        itemValue_def)
  show ?thesis
    using a b p c by simp
qed

text \<open>
  C4, as amended. For every descriptor this class derives that offers choices, and every
  written value that is a valid choice for it and is not the empty string, writing the
  value under the descriptor's key and deriving again shows that value for the key,
  provided that the write path's preset expansion leaves the value as it is (which
  concerns the keys \<^verbatim>\<open>videoDecoderArguments\<close> and \<^verbatim>\<open>h264EncoderArguments\<close> only) and
  that, for \<^verbatim>\<open>objectDetectionContactSensors\<close>, \<^verbatim>\<open>JSON.parse\<close> reads back what
  \<^verbatim>\<open>JSON.stringify\<close> wrote. (The key is handled by this class, not handed to the base
  class.)
\<close>

theorem choice_roundtrip:
  assumes guard: "k \<notin> set (storageSettings env)"
    and d: "d \<in> set (ownSettings env (storage this))" and k: "key d = k"
    and valid: "validChoice d v" and nonempty: "v \<noteq> VStr []"
    and dec: "k = ''videoDecoderArguments'' \<longrightarrow>
                expandDecoderArgs (getH264DecoderArgs env) v = Inr v"
    and enc: "k = ''h264EncoderArguments'' \<longrightarrow>
                expandEncoderArgs (getH264EncoderArgs env) v = Inr v"
    and json: "k = ''objectDetectionContactSensors'' \<longrightarrow>
                JSON_parse env (JSON_stringify env (toJs v)) = Some (toJs v)"
  shows "\<exists>this'. putMixinSetting env k v this = Inr this'
           \<and> shownValue k (getMixinSettings env this') = Some (toJs v)"
  using valid
proof (cases rule: validChoice_cases)
  case (single cs c)
  from nonempty single(3) have c: "c \<noteq> []" by simp
  from own_choices_cases [OF d single(1)] k single(2)
  consider (stream) "k = ''streamingChannel''" "1 < length (msosOf env)"
    | (streamHub) "k = ''streamingChannelHub''" "1 < length (msosOf env)"
    | (rec) "k = ''recordingChannel''" "1 < length (msosOf env)"
        "hasMotionSensor env (storage this)"
    | (hub) "k = ''hubStreamingMode''" "VideoCameraConfiguration \<in> set (interfaces env)"
    | (decoder) "k = ''videoDecoderArguments''" "showTranscodeArgs env (storage this)"
    | (encoder) "k = ''h264EncoderArguments''" "showTranscodeArgs env (storage this)"
    by blast
  then show ?thesis
  proof cases
    case stream
    with guard c single(3) show ?thesis
      by (simp add: getMixinSettings_def putMixinSetting_plain shown_streamingChannel)
  next
    case streamHub
    with guard c single(3) show ?thesis
      by (simp add: getMixinSettings_def putMixinSetting_plain shown_streamingChannelHub)
  next
    case rec
    with guard c single(3) show ?thesis
      by (simp add: getMixinSettings_def putMixinSetting_plain shown_recordingChannel
          hasMotionSensor_update)
  next
    case hub
    with guard c single(3) show ?thesis
      by (simp add: getMixinSettings_def putMixinSetting_hubStreamingMode
          shown_hubStreamingMode hubStreamingModeValue_def)
  next
    case decoder
    from dec decoder(1) have e: "expandDecoderArgs (getH264DecoderArgs env) v = Inr v"
      by simp
    from guard decoder(1) have g: "''videoDecoderArguments'' \<notin> set (storageSettings env)"
      by simp
    have p: "putMixinSetting env k v this =
        Inr (this\<lparr> storage := setItem (storage this) ''videoDecoderArguments'' (toString v),
                  events := events this @ [SettingsMixinEvent] \<rparr>)"
      using decoder(1) putMixinSetting_videoDecoderArguments [OF g e] by simp
    from decoder single(3) show ?thesis
      unfolding p
      by (simp add: getMixinSettings_def shown_videoDecoderArguments showTranscodeArgs_update itemValue_def)
  next
    case encoder
    from enc encoder(1) have e: "expandEncoderArgs (getH264EncoderArgs env) v = Inr v"
      by simp
    from guard encoder(1) have g: "''h264EncoderArguments'' \<notin> set (storageSettings env)"
      by simp
    have p: "putMixinSetting env k v this =
        Inr (this\<lparr> storage := setItem (storage this) ''h264EncoderArguments'' (toString v),
                  events := events this @ [SettingsMixinEvent] \<rparr>)"
      using encoder(1) putMixinSetting_h264EncoderArguments [OF g e] by simp
    from encoder single(3) show ?thesis
      unfolding p
      by (simp add: getMixinSettings_def shown_h264EncoderArguments showTranscodeArgs_update itemValue_def)
  qed
next
  case (several cs xs)
  from own_choices_cases [OF d several(1)] k several(2)
  have "k = ''objectDetectionContactSensors''" and "objectDetectionShown env"
    by auto
  with guard json several(3) show ?thesis
    by (simp add: getMixinSettings_def putMixinSetting_objectDetectionContactSensors
        shown_objectDetectionContactSensors parsedSensors_def)
qed

theorem choice_roundtrip_witness:
  "''hubStreamingMode'' \<notin> set (storageSettings exampleEnv)
   \<and> hubSetting exampleEnv (storage emptyMixin) \<in> set (ownSettings exampleEnv (storage emptyMixin))
   \<and> key (hubSetting exampleEnv (storage emptyMixin)) = ''hubStreamingMode''
   \<and> validChoice (hubSetting exampleEnv (storage emptyMixin)) (VStr ''Transcode'')
   \<and> (\<exists>this'. putMixinSetting exampleEnv ''hubStreamingMode'' (VStr ''Transcode'') emptyMixin
          = Inr this'
        \<and> shownValue ''hubStreamingMode'' (getMixinSettings exampleEnv this')
          = Some (JStr ''Transcode''))
   \<and> ''objectDetectionContactSensors'' \<notin> set (storageSettings exampleEnv)
   \<and> objectDetectionContactSensorsSetting exampleEnv (storage emptyMixin) [''person'', ''car'']
         \<in> set (ownSettings exampleEnv (storage emptyMixin))
   \<and> validChoice
         (objectDetectionContactSensorsSetting exampleEnv (storage emptyMixin) [''person'', ''car''])
         (VStrList [''person''])
   \<and> JSON_parse exampleEnv (JSON_stringify exampleEnv (toJs (VStrList [''person''])))
       = Some (toJs (VStrList [''person'']))
   \<and> (\<exists>this'. putMixinSetting exampleEnv ''objectDetectionContactSensors''
          (VStrList [''person'']) emptyMixin = Inr this'
        \<and> shownValue ''objectDetectionContactSensors'' (getMixinSettings exampleEnv this')
          = Some (JArr [JStr ''person'']))"
proof -
  have g1: "''hubStreamingMode'' \<notin> set (storageSettings exampleEnv)"
    by (simp add: example_guard)
  have d1: "hubSetting exampleEnv (storage emptyMixin)
              \<in> set (ownSettings exampleEnv (storage emptyMixin))"
    by (simp add: ownSettings_def)
  have vcc: "VideoCameraConfiguration \<in> set (interfaces exampleEnv)"
    by (simp add: exampleEnv_def)
  have k1: "key (hubSetting exampleEnv (storage emptyMixin)) = ''hubStreamingMode''"
    using vcc by (simp add: key_hubSetting)
  have v1: "validChoice (hubSetting exampleEnv (storage emptyMixin)) (VStr ''Transcode'')"
    using vcc by (simp add: validChoice_def hubSetting_def blank_def)
  have r1: "\<exists>this'. putMixinSetting exampleEnv ''hubStreamingMode'' (VStr ''Transcode'') emptyMixin
          = Inr this'
        \<and> shownValue ''hubStreamingMode'' (getMixinSettings exampleEnv this')
          = Some (JStr ''Transcode'')"
    using choice_roundtrip [OF g1 d1 k1 v1] by simp
  have g2: "''objectDetectionContactSensors'' \<notin> set (storageSettings exampleEnv)"
    by (simp add: example_guard)
  have d2: "objectDetectionContactSensorsSetting exampleEnv (storage emptyMixin) [''person'', ''car'']
         \<in> set (ownSettings exampleEnv (storage emptyMixin))"
    by (simp add: ownSettings_def objectDetectionSettings_eq example_objectDetectionShown
        example_detectedClasses)
  have k2: "key (objectDetectionContactSensorsSetting exampleEnv (storage emptyMixin)
              [''person'', ''car'']) = ''objectDetectionContactSensors''"
    by (simp add: objectDetectionContactSensorsSetting_def)
  have v2: "validChoice
         (objectDetectionContactSensorsSetting exampleEnv (storage emptyMixin) [''person'', ''car''])
         (VStrList [''person''])"
    by (simp add: validChoice_def objectDetectionContactSensorsSetting_def)
  have j2: "JSON_parse exampleEnv (JSON_stringify exampleEnv (toJs (VStrList [''person''])))
       = Some (toJs (VStrList [''person'']))"
    by (simp add: exampleEnv_def exampleJson_def)
  have r2: "\<exists>this'. putMixinSetting exampleEnv ''objectDetectionContactSensors''
          (VStrList [''person'']) emptyMixin = Inr this'
        \<and> shownValue ''objectDetectionContactSensors'' (getMixinSettings exampleEnv this')
          = Some (JArr [JStr ''person''])"
    using choice_roundtrip [OF g2 d2 k2 v2] j2 by simp
  show ?thesis
    using g1 d1 k1 v1 r1 g2 d2 v2 j2 r2 by simp
qed

end
